theory Spec2Isabelle
  imports Complex_Main "HOL-Library.Sublist"
begin

section \<open>The request sender of LyricsGenius (lyricsgenius/api/base.py)\<close>

text \<open>
  The model follows \<^verbatim>\<open>Sender.__init__\<close>, \<^verbatim>\<open>Sender._make_request\<close> and
  \<^verbatim>\<open>check_token\<close> line by line. Mutation of \<^verbatim>\<open>self._session.headers\<close> is explicit
  state passing, every \<^verbatim>\<open>raise\<close> (also the implicit ones of subscripting, \<^verbatim>\<open>in\<close> and
  \<^verbatim>\<open>.get\<close>) is an \<open>Inl\<close> result, and the two effects on the outside world, the HTTP request
  and \<^verbatim>\<open>time.sleep\<close>, are returned as the list of events the call performed, in order.
\<close>

subsection \<open>Python values\<close>

text \<open>
  What \<^verbatim>\<open>response.json()\<close> can return and what a keyword argument can hold. A dict is an
  association list read with \<open>map_of\<close>. Floats take part in no arithmetic here and are
  carried as rationals.
\<close>

datatype pyval =
    PyNone
  | PyBool bool
  | PyInt int
  | PyFloat rat
  | PyStr string
  | PyList "pyval list"
  | PyDict "(string \<times> pyval) list"

datatype exn =
    Timeout string
  | HTTPError int string
  | AssertionError string
  | TokenRequiredError "string option"
  | KeyError string
  | TypeError
  | AttributeError
  | JSONDecodeError
  | RequestException string

type_synonym result = "exn + pyval"

text \<open>Truth value testing, as \<^verbatim>\<open>if x:\<close> does it.\<close>

fun truthy :: "pyval \<Rightarrow> bool" where
  "truthy PyNone = False"
| "truthy (PyBool b) = b"
| "truthy (PyInt i) = (i \<noteq> 0)"
| "truthy (PyFloat r) = (r \<noteq> 0)"
| "truthy (PyStr s) = (s \<noteq> [])"
| "truthy (PyList xs) = (xs \<noteq> [])"
| "truthy (PyDict kvs) = (kvs \<noteq> [])"

text \<open>\<^verbatim>\<open>k in s\<close> on two strings is the substring test.\<close>

fun substring :: "string \<Rightarrow> string \<Rightarrow> bool" where
  "substring k [] = (k = [])"
| "substring k (c # cs) = (prefix k (c # cs) \<or> substring k cs)"

text \<open>
  \<^verbatim>\<open>k in v\<close> for a string \<open>k\<close>: key membership on a dict, element membership on a list,
  substring on a string, and TypeError on a value that is not a container.
\<close>

fun py_in :: "string \<Rightarrow> pyval \<Rightarrow> exn + bool" where
  "py_in k (PyDict kvs) = Inr (map_of kvs k \<noteq> None)"
| "py_in k (PyList xs) = Inr (PyStr k \<in> set xs)"
| "py_in k (PyStr s) = Inr (substring k s)"
| "py_in k _ = Inl TypeError"

text \<open>
  \<^verbatim>\<open>v[k]\<close> for a string \<open>k\<close>: KeyError on a dict without the key, TypeError on every
  other value (a list or string wants integer indices, the rest is not subscriptable).
\<close>

fun py_getitem :: "pyval \<Rightarrow> string \<Rightarrow> exn + pyval" where
  "py_getitem (PyDict kvs) k = (case map_of kvs k of None \<Rightarrow> Inl (KeyError k) | Some v \<Rightarrow> Inr v)"
| "py_getitem _ k = Inl TypeError"

text \<open>\<^verbatim>\<open>v.get(k)\<close>: only a dict has the method.\<close>

fun py_get :: "pyval \<Rightarrow> string \<Rightarrow> exn + pyval" where
  "py_get (PyDict kvs) k = Inr (case map_of kvs k of None \<Rightarrow> PyNone | Some v \<Rightarrow> v)"
| "py_get _ k = Inl AttributeError"

subsection \<open>The sender, the request and the outside world\<close>

text \<open>
  The fields of \<^verbatim>\<open>self\<close> that the two functions read or write. \<^verbatim>\<open>__init__\<close> replaces
  the session's headers by a plain dict, so its keys are case-sensitive.
  \<^verbatim>\<open>response_format\<close> is read by neither function and is left out.
\<close>

record sender =
  headers :: "string \<rightharpoonup> string"
  access_token :: "string option"
  timeout :: rat
  sleep_time :: rat

record request =
  req_method :: string
  req_uri :: string
  req_headers :: "string \<rightharpoonup> string"
  req_timeout :: rat
  req_params :: "(string \<times> pyval) list"
  req_kwargs :: "(string \<times> pyval) list"

text \<open>
  A response of the requests library: its status code, the text of the HTTPError that
  \<^verbatim>\<open>raise_for_status\<close> builds for it (\<^verbatim>\<open>str(e)\<close>), and what \<^verbatim>\<open>.json()\<close> gives,
  \<open>None\<close> when the body is not JSON and \<^verbatim>\<open>.json()\<close> raises.
\<close>

record response =
  status_code :: int
  error_text :: string
  json :: "pyval option"

text \<open>
  What \<^verbatim>\<open>self._session.request(...)\<close> does: it raises Timeout (with the text of the
  exception), raises another exception of the library, or returns a response.
\<close>

datatype outcome =
    TimedOut string
  | Failed string
  | Responded response

text \<open>
  The libraries outside the repository: the network behind \<^verbatim>\<open>Session.request\<close>, and
  Python's \<^verbatim>\<open>str\<close> on a value that is not a string.
\<close>

record env =
  send :: "request \<Rightarrow> outcome"
  py_str :: "pyval \<Rightarrow> string"

datatype event = Sent request | Slept rat

text \<open>
  \<^verbatim>\<open>Response.raise_for_status\<close> of the requests library raises HTTPError exactly for a
  status from 400 to 599.
\<close>

definition raise_for_status :: "response \<Rightarrow> bool" where
  "raise_for_status r \<longleftrightarrow> 400 \<le> status_code r \<and> status_code r < 600"

definition SLEEP_MIN :: rat where
  "SLEEP_MIN = 2 / 10"

definition API_ROOT :: string where
  "API_ROOT = ''https://api.genius.com/''"

definition PUBLIC_API_ROOT :: string where
  "PUBLIC_API_ROOT = ''https://genius.com/api/''"

definition newline :: char where
  "newline = CHR 0x0A"

subsection \<open>\<^verbatim>\<open>Sender.__init__\<close>\<close>

definition Sender_init :: "string option \<Rightarrow> rat \<Rightarrow> rat \<Rightarrow> sender" where
  "Sender_init token tmo slp =
     (let hs = [''application'' \<mapsto> ''LyricsGenius'',
                ''User-Agent'' \<mapsto> ''https://github.com/johnwmillr/LyricsGenius''];
          hs = (case token of
                  None \<Rightarrow> hs
                | Some t \<Rightarrow> hs(''authorization'' \<mapsto> ''Bearer '' @ t))
      in \<lparr>headers = hs, access_token = token, timeout = tmo, sleep_time = slp\<rparr>)"

subsection \<open>\<^verbatim>\<open>Sender._make_request\<close>\<close>

text \<open>
  Lines 45 to 50: the root, the header that was popped (\<open>None\<close> when there was none, and
  on the authenticated path) and the sender after the pop.
\<close>

definition select_root :: "sender \<Rightarrow> bool \<Rightarrow> string \<times> string option \<times> sender" where
  "select_root s public_api =
     (if public_api
      then (PUBLIC_API_ROOT, headers s ''authorization'',
            s\<lparr>headers := (headers s)(''authorization'' := None)\<rparr>)
      else (API_ROOT, None, s))"

text \<open>Line 53: \<^verbatim>\<open>params_ if params_ else {}\<close>; \<open>None\<close> and the empty dict are falsy.\<close>

definition default_params :: "(string \<times> pyval) list option \<Rightarrow> (string \<times> pyval) list" where
  "default_params params =
     (case params of None \<Rightarrow> [] | Some ps \<Rightarrow> (if ps \<noteq> [] then ps else []))"

text \<open>Lines 58 to 61: the request that is handed to the session.\<close>

definition the_request ::
  "sender \<Rightarrow> string \<Rightarrow> string \<Rightarrow> (string \<times> pyval) list option \<Rightarrow> bool
     \<Rightarrow> (string \<times> pyval) list \<Rightarrow> request" where
  "the_request s path method params public_api kwargs =
     (case select_root s public_api of
        (uri, header, s1) \<Rightarrow>
          \<lparr>req_method = method, req_uri = uri @ path, req_headers = headers s1,
           req_timeout = timeout s1, req_params = default_params params,
           req_kwargs = kwargs\<rparr>)"

text \<open>\<^verbatim>\<open>'\n{}'.format(description)\<close>: a string is inserted as it is.\<close>

definition format_description :: "env \<Rightarrow> pyval \<Rightarrow> string" where
  "format_description ev d = newline # (case d of PyStr t \<Rightarrow> t | _ \<Rightarrow> py_str ev d)"

text \<open>
  Lines 69 to 71: \<^verbatim>\<open>res['meta']['message'] if res.get('meta') else res.get('error_description')\<close>.
  The condition is evaluated first.
\<close>

definition description_of :: "pyval \<Rightarrow> exn + pyval" where
  "description_of res =
     (case py_get res ''meta'' of
        Inl e \<Rightarrow> Inl e
      | Inr m \<Rightarrow>
          (if truthy m
           then (case py_getitem res ''meta'' of
                   Inl e \<Rightarrow> Inl e
                 | Inr m' \<Rightarrow> py_getitem m' ''message'')
           else py_get res ''error_description''))"

text \<open>Lines 66 to 73: the handler of HTTPError; it always ends in a raise.\<close>

definition handle_http_error :: "env \<Rightarrow> response \<Rightarrow> exn" where
  "handle_http_error ev r =
     (let error = error_text r in
      case json r of
        None \<Rightarrow> JSONDecodeError
      | Some res \<Rightarrow>
          (case description_of res of
             Inl e \<Rightarrow> e
           | Inr description \<Rightarrow>
               HTTPError (status_code r)
                 (error @ (if truthy description then format_description ev description else []))))"

text \<open>Lines 75 and 76: \<^verbatim>\<open>if header:\<close> is false for \<open>None\<close> and for the empty string.\<close>

definition restore_header :: "string option \<Rightarrow> sender \<Rightarrow> sender" where
  "restore_header header s =
     (case header of
        None \<Rightarrow> s
      | Some h \<Rightarrow> (if h \<noteq> [] then s\<lparr>headers := (headers s)(''authorization'' \<mapsto> h)\<rparr> else s))"

text \<open>Lines 81 to 87.\<close>

definition finish :: "response \<Rightarrow> result" where
  "finish r =
     (if status_code r = 200 then
        (case json r of
           None \<Rightarrow> Inl JSONDecodeError
         | Some res \<Rightarrow>
             (case py_in ''response'' res of
                Inl e \<Rightarrow> Inl e
              | Inr True \<Rightarrow> py_getitem res ''response''
              | Inr False \<Rightarrow> Inr res))
      else if status_code r = 204 then Inr (PyInt 204)
      else Inl (AssertionError ''Response status code was neither 200, nor 204!''))"

definition make_request ::
  "env \<Rightarrow> sender \<Rightarrow> string \<Rightarrow> string \<Rightarrow> (string \<times> pyval) list option \<Rightarrow> bool
     \<Rightarrow> (string \<times> pyval) list \<Rightarrow> result \<times> sender \<times> event list" where
  "make_request ev s path method params public_api kwargs =
     (case select_root s public_api of
        (uri, header, s1) \<Rightarrow>
          (let rq = the_request s path method params public_api kwargs in
           case send ev rq of
             TimedOut e \<Rightarrow>
               (Inl (Timeout (''Request timed out:'' @ newline # e)), s1, [Sent rq])
           | Failed x \<Rightarrow> (Inl (RequestException x), s1, [Sent rq])
           | Responded r \<Rightarrow>
               (if raise_for_status r
                then (Inl (handle_http_error ev r), s1, [Sent rq])
                else (let s2 = restore_header header s1;
                          d = max SLEEP_MIN (sleep_time s2)
                      in (finish r, s2, [Sent rq, Slept d])))))"

subsection \<open>\<^verbatim>\<open>check_token\<close>\<close>

definition public_api_msg :: string where
  "public_api_msg =
     ''Using this method with the developers API needs an access token.''
     @ '' Get an access token or''
     @ '' use the public API by setting''
     @ '' public_api=True in method parameters.''"

text \<open>
  A wrapped function. \<^verbatim>\<open>func.__code__.co_varnames\<close> is the tuple of the names of the
  function's parameters followed by the names of its local variables. \<open>run\<close> is the
  function itself: called with \<^verbatim>\<open>self\<close>, the positional and the keyword arguments.
\<close>

record func =
  arg_names :: "string list"
  local_names :: "string list"
  run :: "sender \<Rightarrow> pyval list \<Rightarrow> (string \<times> pyval) list \<Rightarrow> result \<times> sender \<times> event list"

definition co_varnames :: "func \<Rightarrow> string list" where
  "co_varnames f = arg_names f @ local_names f"

text \<open>\<^verbatim>\<open>kwargs.get(k, default)\<close>.\<close>

definition kwargs_get :: "(string \<times> pyval) list \<Rightarrow> string \<Rightarrow> pyval \<Rightarrow> pyval" where
  "kwargs_get kwargs k dflt = (case map_of kwargs k of None \<Rightarrow> dflt | Some v \<Rightarrow> v)"

text \<open>
  The wrapper. \<^verbatim>\<open>x is False\<close> holds for the object \<^verbatim>\<open>False\<close> only, which
  \<open>PyBool False\<close> alone stands for.
\<close>

definition check_token ::
  "func \<Rightarrow> sender \<Rightarrow> pyval list \<Rightarrow> (string \<times> pyval) list \<Rightarrow> result \<times> sender \<times> event list" where
  "check_token f s args kwargs =
     (if access_token s = None then
        (let public_method = ''public_api'' \<in> set (co_varnames f) in
         if public_method then
           (if kwargs_get kwargs ''public_api'' (PyBool False) = PyBool False
            then (Inl (TokenRequiredError (Some public_api_msg)), s, [])
            else run f s args kwargs)
         else (Inl (TokenRequiredError None), s, []))
      else run f s args kwargs)"

subsection \<open>Reading the events of a call\<close>

fun sent :: "event list \<Rightarrow> request list" where
  "sent [] = []"
| "sent (Sent rq # es) = rq # sent es"
| "sent (Slept d # es) = sent es"

fun slept :: "event list \<Rightarrow> rat list" where
  "slept [] = []"
| "slept (Sent rq # es) = slept es"
| "slept (Slept d # es) = d # slept es"

subsection \<open>The senders a program can hold\<close>

text \<open>
  \<^verbatim>\<open>_session\<close> is private: a sender comes from the constructor, and its headers change
  only in \<^verbatim>\<open>_make_request\<close>. The attributes \<^verbatim>\<open>timeout\<close> and \<^verbatim>\<open>sleep_time\<close> are public.
\<close>

inductive reachable :: "sender \<Rightarrow> bool" where
  init: "reachable (Sender_init token tmo slp)"
| request: "reachable s \<Longrightarrow>
     reachable (fst (snd (make_request ev s path method params public_api kwargs)))"
| set_timeout: "reachable s \<Longrightarrow> reachable (s\<lparr>timeout := t\<rparr>)"
| set_sleep_time: "reachable s \<Longrightarrow> reachable (s\<lparr>sleep_time := t\<rparr>)"

subsection \<open>The error description, in the words of the specification\<close>

text \<open>
  The specification's rule for the text appended to an HTTP error, to be compared with
  \<open>description_of\<close>: the nested \<^verbatim>\<open>meta.message\<close> when there is one, otherwise the field
  \<^verbatim>\<open>error_description\<close>, otherwise nothing.
\<close>

definition spec_description :: "(string \<times> pyval) list \<Rightarrow> pyval option" where
  "spec_description kvs =
     (case (case map_of kvs ''meta'' of Some (PyDict m) \<Rightarrow> map_of m ''message'' | _ \<Rightarrow> None) of
        Some d \<Rightarrow> Some d
      | None \<Rightarrow> map_of kvs ''error_description'')"

text \<open>A description is appended on a line of its own when it is truthy.\<close>

definition spec_suffix :: "env \<Rightarrow> (string \<times> pyval) list \<Rightarrow> string" where
  "spec_suffix ev kvs =
     (case spec_description kvs of
        None \<Rightarrow> []
      | Some d \<Rightarrow> (if truthy d then format_description ev d else []))"

text \<open>
  The error bodies on which the code follows that rule: \<^verbatim>\<open>meta\<close> is absent, or falsy,
  or a dict that holds \<^verbatim>\<open>message\<close>.
\<close>

definition meta_ok :: "(string \<times> pyval) list \<Rightarrow> bool" where
  "meta_ok kvs =
     (case map_of kvs ''meta'' of
        None \<Rightarrow> True
      | Some (PyDict m) \<Rightarrow> m = [] \<or> map_of m ''message'' \<noteq> None
      | Some v \<Rightarrow> \<not> truthy v)"

subsection \<open>Concrete instances\<close>

text \<open>
  A network that answers every request the same way; \<^verbatim>\<open>str\<close> on values that are not
  strings is not needed by the instances below.
\<close>

definition fixed_env :: "outcome \<Rightarrow> env" where
  "fixed_env out = \<lparr>send = (\<lambda>rq. out), py_str = (\<lambda>v. [])\<rparr>"

definition ok_response :: "int \<Rightarrow> pyval \<Rightarrow> response" where
  "ok_response st body = \<lparr>status_code = st, error_text = [], json = Some body\<rparr>"

definition error_response :: "int \<Rightarrow> string \<Rightarrow> pyval option \<Rightarrow> response" where
  "error_response st txt body = \<lparr>status_code = st, error_text = txt, json = body\<rparr>"

definition token_sender :: sender where
  "token_sender = Sender_init (Some ''token'') 5 (1 / 2)"

definition anonymous_sender :: sender where
  "anonymous_sender = Sender_init None 5 (1 / 2)"

definition song_env :: env where
  "song_env =
     fixed_env (Responded (ok_response 200 (PyDict [(''response'', PyDict [(''id'', PyInt 1)])])))"


text \<open>
  \<^verbatim>\<open>def song(self, **kwargs):\<close> with the body
  \<^verbatim>\<open>public_api = kwargs.get('public_api', False); return self._make_request('songs/1', public_api=public_api)\<close>:
  \<^verbatim>\<open>public_api\<close> is a local variable, not a parameter.
\<close>

definition kwargs_func :: "env \<Rightarrow> func" where
  "kwargs_func ev =
     \<lparr>arg_names = [''self'', ''kwargs''], local_names = [''public_api''],
      run = (\<lambda>s args kwargs.
               make_request ev s ''songs/1'' ''GET'' None
                 (truthy (kwargs_get kwargs ''public_api'' (PyBool False))) [])\<rparr>"

text \<open>\<^verbatim>\<open>def account(self): return self._make_request('account')\<close>\<close>

definition plain_func :: "env \<Rightarrow> func" where
  "plain_func ev =
     \<lparr>arg_names = [''self''], local_names = [],
      run = (\<lambda>s args kwargs. make_request ev s ''account'' ''GET'' None False [])\<rparr>"

definition forbidden :: response where
  "forbidden = error_response 403 ''403 Client Error''
     (Some (PyDict [(''meta'', PyDict [(''status'', PyInt 403), (''message'', PyStr ''invalid token'')]),
                    (''error_description'', PyStr ''unused'')]))"

definition unauthorized :: response where
  "unauthorized = error_response 401 ''401 Client Error''
     (Some (PyDict [(''error'', PyStr ''invalid_token''),
                    (''error_description'', PyStr ''The access token provided is expired'')]))"

definition server_error :: response where
  "server_error = error_response 500 ''500 Server Error'' (Some (PyDict []))"

definition no_message :: response where
  "no_message = error_response 500 ''500 Server Error''
     (Some (PyDict [(''meta'', PyDict [(''status'', PyInt 500)])]))"

text \<open>A gateway's error page: the body is not JSON.\<close>

definition bad_gateway :: response where
  "bad_gateway = error_response 502 ''502 Server Error'' None"

section \<open>Properties\<close>

subsection \<open>Shared lemmas\<close>

lemmas request_defs = make_request_def select_root_def restore_header_def finish_def
  raise_for_status_def handle_http_error_def description_of_def

lemma select_restore:
  assumes "headers s ''authorization'' \<noteq> Some []"
  shows "restore_header (fst (snd (select_root s b))) (snd (snd (select_root s b))) = s"
proof (cases b)
  case False
  then show ?thesis by (simp add: select_root_def restore_header_def)
next
  case True
  show ?thesis
  proof (cases "headers s ''authorization''")
    case None
    then have "(headers s)(''authorization'' := None) = headers s"
      by (auto simp: fun_eq_iff)
    with True None show ?thesis by (simp add: select_root_def restore_header_def)
  next
    case (Some h)
    with assms have "h \<noteq> []" by simp
    with True Some show ?thesis
      by (simp add: select_root_def restore_header_def map_upd_triv)
  qed
qed

lemma sender_of_make_request:
  "fst (snd (make_request ev s path method params public_api kwargs)) =
     (case send ev (the_request s path method params public_api kwargs) of
        Responded r \<Rightarrow>
          (if raise_for_status r then snd (snd (select_root s public_api))
           else restore_header (fst (snd (select_root s public_api)))
                  (snd (snd (select_root s public_api))))
      | _ \<Rightarrow> snd (snd (select_root s public_api)))"
  by (simp add: make_request_def Let_def split: prod.splits outcome.splits)

lemma select_root_auth:
  "headers s ''authorization'' \<noteq> Some [] \<Longrightarrow>
   headers (snd (snd (select_root s b))) ''authorization'' \<noteq> Some []"
  by (simp add: select_root_def)

text \<open>
  The constructor writes \<^verbatim>\<open>'Bearer ' + access_token\<close>, and a request writes back only
  what it popped: no reachable sender carries an empty authorization header.
\<close>

lemma reachable_authorization: "reachable s \<Longrightarrow> headers s ''authorization'' \<noteq> Some []"
proof (induction rule: reachable.induct)
  case (init token tmo slp)
  then show ?case by (simp add: Sender_init_def Let_def split: option.splits)
next
  case (request s ev path verb ps pub kw)
  then show ?case
    by (simp add: sender_of_make_request select_restore select_root_auth split: outcome.splits)
qed simp_all

text \<open>What a call does once the session has returned a response.\<close>

lemma make_request_Responded:
  assumes "send ev (the_request s path method params public_api kwargs) = Responded r"
  shows "make_request ev s path method params public_api kwargs =
     (if raise_for_status r
      then (Inl (handle_http_error ev r), snd (snd (select_root s public_api)),
            [Sent (the_request s path method params public_api kwargs)])
      else (finish r,
            restore_header (fst (snd (select_root s public_api))) (snd (snd (select_root s public_api))),
            [Sent (the_request s path method params public_api kwargs),
             Slept (max SLEEP_MIN (sleep_time s))]))"
proof -
  have "sleep_time (restore_header a b) = sleep_time s"
    if "select_root s public_api = (x, a, b)" for x a b
    using that by (auto simp: restore_header_def select_root_def split: option.splits if_splits)
  with assms show ?thesis
    by (simp add: make_request_def Let_def split: prod.splits)
qed

text \<open>
  On the two paths that re-raise, the call ends inside the handler: the header popped for
  a public call is not written back and nothing sleeps.
\<close>

lemma error_paths_skip_cleanup:
  assumes "send ev (the_request s path method params True kwargs) = TimedOut e
           \<or> (\<exists>r. send ev (the_request s path method params True kwargs) = Responded r
                  \<and> raise_for_status r)"
  shows "headers (fst (snd (make_request ev s path method params True kwargs))) ''authorization'' = None"
    and "slept (snd (snd (make_request ev s path method params True kwargs))) = []"
  using assms by (auto simp: make_request_def select_root_def Let_def)

text \<open>An error response whose body is not JSON ends in the exception of \<^verbatim>\<open>.json()\<close>.\<close>

lemma http_error_unparsable_body:
  assumes "send ev (the_request s path method params public_api kwargs) = Responded r"
    and "raise_for_status r" and "json r = None"
  shows "fst (make_request ev s path method params public_api kwargs) = Inl JSONDecodeError"
  using make_request_Responded [OF assms(1)] assms(2,3)
  by (simp add: handle_http_error_def)

lemma description_of_dict:
  assumes "meta_ok kvs"
  shows "description_of (PyDict kvs) =
           Inr (case spec_description kvs of None \<Rightarrow> PyNone | Some d \<Rightarrow> d)"
proof (cases "map_of kvs ''meta''")
  case None
  then show ?thesis
    by (simp add: description_of_def spec_description_def)
next
  case (Some m)
  show ?thesis
  proof (cases m)
    case (PyDict ms)
    with Some assms show ?thesis
      by (auto simp: description_of_def spec_description_def meta_ok_def split: option.splits)
  qed (use Some assms in \<open>simp_all add: description_of_def spec_description_def meta_ok_def\<close>)
qed

subsection \<open>The authorization header\<close>

text \<open>
  C1, at a failing input. A sender built with a token makes a public call. When the request
  times out, and when the server answers 403, the call raises and the session is left
  without its authorization header: the restoring assignment of lines 75 and 76 stands
  after the handlers, which leave the function.
\<close>

theorem authorization_lost_on_error:
  "headers token_sender ''authorization'' = Some ''Bearer token''
   \<and> fst (make_request (fixed_env (TimedOut ''read timed out'')) token_sender
            ''songs/1'' ''GET'' None True [])
       = Inl (Timeout (''Request timed out:'' @ newline # ''read timed out''))
   \<and> headers (fst (snd (make_request (fixed_env (TimedOut ''read timed out'')) token_sender
            ''songs/1'' ''GET'' None True []))) ''authorization'' = None
   \<and> fst (make_request (fixed_env (Responded forbidden)) token_sender ''songs/1'' ''GET'' None True [])
       = Inl (HTTPError 403 (''403 Client Error'' @ newline # ''invalid token''))
   \<and> headers (fst (snd (make_request (fixed_env (Responded forbidden)) token_sender
            ''songs/1'' ''GET'' None True []))) ''authorization'' = None"
  by (simp add: fixed_env_def forbidden_def error_response_def token_sender_def Sender_init_def
      request_defs format_description_def Let_def)

text \<open>
  C7. With \<^verbatim>\<open>public_api=False\<close> the root selection returns the sender as it is, the
  request carries the session's headers, and the sender after the call is the sender before
  it, whatever the network does: on a return and on every raise.
\<close>

theorem authenticated_call_keeps_headers:
  "select_root s False = (API_ROOT, None, s)
   \<and> req_headers (the_request s path method params False kwargs) = headers s
   \<and> fst (snd (make_request ev s path method params False kwargs)) = s"
  by (simp add: make_request_def the_request_def select_root_def restore_header_def Let_def
      split: outcome.splits)

theorem authenticated_call_keeps_headers_witness:
  "headers (fst (snd (make_request (fixed_env (TimedOut ''read timed out'')) token_sender
      ''songs/1'' ''GET'' None False []))) ''authorization'' = Some ''Bearer token''"
  using authenticated_call_keeps_headers [of token_sender "''songs/1''" "''GET''" None "[]"
      "fixed_env (TimedOut ''read timed out'')"]
  by (simp add: token_sender_def Sender_init_def)

text \<open>
  C10. A public call of a reachable sender that holds an authorization header gets a
  response with a status from 200 to 299 other than 200 and 204. The request went out
  without the header; the call raises AssertionError, and by then the sender is again the
  sender before the call, header included, and the sleep of \<open>max SLEEP_MIN sleep_time\<close> is
  the last event.
\<close>

theorem cleanup_before_assertion:
  assumes "reachable s" and "headers s ''authorization'' = Some h"
    and "send ev (the_request s path method params True kwargs) = Responded r"
    and "200 \<le> status_code r" and "status_code r < 300"
    and "status_code r \<noteq> 200" and "status_code r \<noteq> 204"
  shows "req_headers (the_request s path method params True kwargs) ''authorization'' = None
       \<and> make_request ev s path method params True kwargs =
           (Inl (AssertionError ''Response status code was neither 200, nor 204!''), s,
            [Sent (the_request s path method params True kwargs),
             Slept (max SLEEP_MIN (sleep_time s))])
       \<and> headers s ''authorization'' = Some h"
proof -
  have "\<not> raise_for_status r"
    using assms(5) by (simp add: raise_for_status_def)
  moreover have "restore_header (fst (snd (select_root s True))) (snd (snd (select_root s True))) = s"
    using reachable_authorization [OF assms(1)] by (rule select_restore)
  moreover have "req_headers (the_request s path method params True kwargs) ''authorization'' = None"
    by (simp add: the_request_def select_root_def)
  ultimately show ?thesis
    using make_request_Responded [OF assms(3)] assms(2,6,7)
    by (simp add: finish_def)
qed

theorem cleanup_before_assertion_witness:
  "headers token_sender ''authorization'' = Some ''Bearer token''
   \<and> make_request (fixed_env (Responded (ok_response 201 PyNone))) token_sender ''songs/1'' ''POST'' None True []
      = (Inl (AssertionError ''Response status code was neither 200, nor 204!''), token_sender,
         [Sent (the_request token_sender ''songs/1'' ''POST'' None True []), Slept (1 / 2)])"
proof -
  have a: "reachable token_sender"
    unfolding token_sender_def by (rule reachable.init)
  have b: "headers token_sender ''authorization'' = Some ''Bearer token''"
    by (simp add: token_sender_def Sender_init_def)
  have c: "send (fixed_env (Responded (ok_response 201 PyNone)))
             (the_request token_sender ''songs/1'' ''POST'' None True [])
             = Responded (ok_response 201 PyNone)"
    by (simp add: fixed_env_def)
  have d: "max SLEEP_MIN (sleep_time token_sender) = 1 / 2"
    by (simp add: token_sender_def Sender_init_def SLEEP_MIN_def Let_def)
  show ?thesis
    using b cleanup_before_assertion [OF a b c] d
    by (simp add: ok_response_def)
qed

subsection \<open>Errors of the request\<close>

text \<open>
  C9. When the session's request raises Timeout with the text \<open>e\<close>, the call raises Timeout
  with the text \<^verbatim>\<open>Request timed out:\<close>, a line break, and \<open>e\<close>.
\<close>

theorem timeout_reraised:
  assumes "send ev (the_request s path method params public_api kwargs) = TimedOut e"
  shows "fst (make_request ev s path method params public_api kwargs) =
           Inl (Timeout (''Request timed out:'' @ newline # e))"
  using assms by (simp add: make_request_def Let_def split: prod.splits)

theorem timeout_reraised_witness:
  "fst (make_request (fixed_env (TimedOut ''read timed out'')) token_sender ''songs/1'' ''GET'' None False [])
     = Inl (Timeout (''Request timed out:'' @ newline # ''read timed out''))"
proof -
  have a: "send (fixed_env (TimedOut ''read timed out''))
             (the_request token_sender ''songs/1'' ''GET'' None False [])
             = TimedOut ''read timed out''"
    by (simp add: fixed_env_def)
  show ?thesis
    using timeout_reraised [OF a] by simp
qed

text \<open>
  C3, at failing inputs. The handler of HTTPError reads \<^verbatim>\<open>meta\<close> and
  \<^verbatim>\<open>error_description\<close> with \<^verbatim>\<open>.get\<close> and tests \<^verbatim>\<open>if description\<close>, but it
  subscripts \<^verbatim>\<open>['message']\<close> and calls \<^verbatim>\<open>.json()\<close> unguarded. A 500 response whose
  body is \<^verbatim>\<open>{"meta": {"status": 500}}\<close> has no description to extract: the call does
  not raise HTTPError with nothing appended, it ends in KeyError. A 502 response whose body
  is not JSON ends in the exception of \<^verbatim>\<open>.json()\<close>.
\<close>

theorem http_error_crashes_on_missing_field:
  "400 \<le> status_code no_message \<and> status_code no_message < 600
   \<and> json no_message = Some (PyDict [(''meta'', PyDict [(''status'', PyInt 500)])])
   \<and> fst (make_request (fixed_env (Responded no_message)) token_sender ''songs/1'' ''GET'' None False [])
       = Inl (KeyError ''message'')
   \<and> 400 \<le> status_code bad_gateway \<and> status_code bad_gateway < 600
   \<and> json bad_gateway = None
   \<and> fst (make_request (fixed_env (Responded bad_gateway)) token_sender ''songs/1'' ''GET'' None False [])
       = Inl JSONDecodeError"
  by (simp add: fixed_env_def no_message_def bad_gateway_def error_response_def token_sender_def
      Sender_init_def request_defs Let_def)

text \<open>
  Where the handler finds what it reads, it follows the specification's rule. For a
  response with a status from 400 to 599 whose body is a JSON object in which \<^verbatim>\<open>meta\<close>
  is absent, falsy, or an object holding \<^verbatim>\<open>message\<close>, the call raises HTTPError with
  the status code and the original error text, followed, when the description is truthy,
  by a line break and the description: \<^verbatim>\<open>meta.message\<close> when \<^verbatim>\<open>meta\<close> holds it,
  otherwise \<^verbatim>\<open>error_description\<close>.
\<close>

lemma http_error_description:
  assumes "send ev (the_request s path method params public_api kwargs) = Responded r"
    and "400 \<le> status_code r" and "status_code r < 600"
    and "json r = Some (PyDict kvs)" and "meta_ok kvs"
  shows "fst (make_request ev s path method params public_api kwargs) =
           Inl (HTTPError (status_code r) (error_text r @ spec_suffix ev kvs))"
proof -
  have "raise_for_status r"
    using assms(2,3) by (simp add: raise_for_status_def)
  moreover have "handle_http_error ev r =
      HTTPError (status_code r) (error_text r @ spec_suffix ev kvs)"
    using assms(4) description_of_dict [OF assms(5)]
    by (simp add: handle_http_error_def spec_suffix_def split: option.splits)
  ultimately show ?thesis
    using make_request_Responded [OF assms(1)] by simp
qed

lemma http_error_description_examples:
  "fst (make_request (fixed_env (Responded forbidden)) token_sender ''songs/1'' ''GET'' None False [])
     = Inl (HTTPError 403 (''403 Client Error'' @ newline # ''invalid token''))
   \<and> fst (make_request (fixed_env (Responded unauthorized)) token_sender ''songs/1'' ''GET'' None False [])
     = Inl (HTTPError 401 (''401 Client Error'' @ newline # ''The access token provided is expired''))
   \<and> fst (make_request (fixed_env (Responded server_error)) token_sender ''songs/1'' ''GET'' None False [])
     = Inl (HTTPError 500 ''500 Server Error'')"
proof -
  have a: "send (fixed_env (Responded r)) (the_request token_sender ''songs/1'' ''GET'' None False [])
             = Responded r" for r
    by (simp add: fixed_env_def)
  have "meta_ok [(''meta'', PyDict [(''status'', PyInt 403), (''message'', PyStr ''invalid token'')]),
                 (''error_description'', PyStr ''unused'')]"
    by (simp add: meta_ok_def)
  from http_error_description [OF a _ _ _ this, of forbidden]
  have 1: "fst (make_request (fixed_env (Responded forbidden)) token_sender ''songs/1'' ''GET'' None False [])
     = Inl (HTTPError 403 (''403 Client Error'' @ newline # ''invalid token''))"
    by (simp add: forbidden_def error_response_def spec_suffix_def spec_description_def
        format_description_def)
  have "meta_ok [(''error'', PyStr ''invalid_token''),
                 (''error_description'', PyStr ''The access token provided is expired'')]"
    by (simp add: meta_ok_def)
  from http_error_description [OF a _ _ _ this, of unauthorized]
  have 2: "fst (make_request (fixed_env (Responded unauthorized)) token_sender ''songs/1'' ''GET'' None False [])
     = Inl (HTTPError 401 (''401 Client Error'' @ newline # ''The access token provided is expired''))"
    by (simp add: unauthorized_def error_response_def spec_suffix_def spec_description_def
        format_description_def)
  have "meta_ok []"
    by (simp add: meta_ok_def)
  from http_error_description [OF a _ _ _ this, of server_error]
  have 3: "fst (make_request (fixed_env (Responded server_error)) token_sender ''songs/1'' ''GET'' None False [])
     = Inl (HTTPError 500 ''500 Server Error'')"
    by (simp add: server_error_def error_response_def spec_suffix_def spec_description_def)
  from 1 2 3 show ?thesis by simp
qed

subsection \<open>Results of a completed request\<close>

text \<open>
  C4 fails as stated. A 200 response whose body is the JSON value \<^verbatim>\<open>null\<close> has no
  \<^verbatim>\<open>response\<close> key, and the call does not return the body: \<^verbatim>\<open>"response" in res\<close>
  raises TypeError on a value that is not a container.
\<close>

theorem success_counterexample:
  "status_code (ok_response 200 PyNone) = 200
   \<and> json (ok_response 200 PyNone) = Some PyNone
   \<and> fst (make_request (fixed_env (Responded (ok_response 200 PyNone))) token_sender
            ''songs/1'' ''GET'' None False [])
       = Inl TypeError"
  by (simp add: fixed_env_def ok_response_def token_sender_def Sender_init_def request_defs Let_def)

text \<open>
  C4, amended. On a response that the session returned: with status 200 and a body that is
  a JSON object holding the key \<^verbatim>\<open>response\<close>, the call returns the value under that key;
  with status 200 and a body that is a JSON object without that key, it returns the whole
  body; with status 204 it returns the integer 204, whatever the body is.
\<close>

theorem success_results:
  assumes "send ev (the_request s path method params public_api kwargs) = Responded r"
  shows "(status_code r = 200 \<longrightarrow> json r = Some (PyDict kvs) \<longrightarrow> map_of kvs ''response'' = Some v \<longrightarrow>
            fst (make_request ev s path method params public_api kwargs) = Inr v)
       \<and> (status_code r = 200 \<longrightarrow> json r = Some (PyDict kvs) \<longrightarrow> map_of kvs ''response'' = None \<longrightarrow>
            fst (make_request ev s path method params public_api kwargs) = Inr (PyDict kvs))
       \<and> (status_code r = 204 \<longrightarrow>
            fst (make_request ev s path method params public_api kwargs) = Inr (PyInt 204))"
  using make_request_Responded [OF assms]
  by (simp add: raise_for_status_def finish_def)

theorem success_results_witness:
  "fst (make_request (fixed_env (Responded (ok_response 200 (PyDict [(''response'', PyDict [(''a'', PyInt 1)])]))))
          token_sender ''songs/1'' ''GET'' None False []) = Inr (PyDict [(''a'', PyInt 1)])
   \<and> fst (make_request (fixed_env (Responded (ok_response 200 (PyDict [(''a'', PyInt 1)]))))
          token_sender ''songs/1'' ''GET'' None False []) = Inr (PyDict [(''a'', PyInt 1)])
   \<and> fst (make_request (fixed_env (Responded (ok_response 204 (PyStr ''ignored''))))
          token_sender ''songs/1'' ''GET'' None False []) = Inr (PyInt 204)"
proof -
  have a: "send (fixed_env (Responded r)) (the_request token_sender ''songs/1'' ''GET'' None False [])
             = Responded r" for r
    by (simp add: fixed_env_def)
  show ?thesis
    using success_results [OF a, of "ok_response 200 (PyDict [(''response'', PyDict [(''a'', PyInt 1)])])"
        "[(''response'', PyDict [(''a'', PyInt 1)])]" "PyDict [(''a'', PyInt 1)]"]
      success_results [OF a, of "ok_response 200 (PyDict [(''a'', PyInt 1)])" "[(''a'', PyInt 1)]"]
      success_results [OF a, of "ok_response 204 (PyStr ''ignored'')"]
    by (simp add: ok_response_def)
qed

text \<open>
  C5. A response reaches the last branch when the request returned it and
  \<^verbatim>\<open>raise_for_status\<close> did not raise. If its status is neither 200 nor 204 the call raises
  AssertionError to its caller, and exactly one request was sent: nothing is retried.
\<close>

theorem unexpected_status_asserts:
  assumes "send ev (the_request s path method params public_api kwargs) = Responded r"
    and "\<not> raise_for_status r"
    and "status_code r \<noteq> 200" and "status_code r \<noteq> 204"
  shows "fst (make_request ev s path method params public_api kwargs) =
           Inl (AssertionError ''Response status code was neither 200, nor 204!'')
       \<and> sent (snd (snd (make_request ev s path method params public_api kwargs))) =
           [the_request s path method params public_api kwargs]"
  using make_request_Responded [OF assms(1)] assms(2-4)
  by (simp add: finish_def)

theorem unexpected_status_asserts_witness:
  "\<not> raise_for_status (ok_response 304 PyNone)
   \<and> status_code (ok_response 304 PyNone) \<noteq> 200 \<and> status_code (ok_response 304 PyNone) \<noteq> 204
   \<and> fst (make_request (fixed_env (Responded (ok_response 304 PyNone))) token_sender
           ''songs/1'' ''GET'' None False [])
      = Inl (AssertionError ''Response status code was neither 200, nor 204!'')
   \<and> map req_uri (sent (snd (snd (make_request (fixed_env (Responded (ok_response 304 PyNone)))
           token_sender ''songs/1'' ''GET'' None False []))))
      = [''https://api.genius.com/songs/1'']"
proof -
  have a: "send (fixed_env (Responded (ok_response 304 PyNone)))
             (the_request token_sender ''songs/1'' ''GET'' None False [])
             = Responded (ok_response 304 PyNone)"
    by (simp add: fixed_env_def)
  have b: "\<not> raise_for_status (ok_response 304 PyNone)"
    by (simp add: raise_for_status_def ok_response_def)
  have c: "status_code (ok_response 304 PyNone) \<noteq> 200"
    and d: "status_code (ok_response 304 PyNone) \<noteq> 204"
    by (simp_all add: ok_response_def)
  show ?thesis
    using b c d unexpected_status_asserts [OF a b c d]
    by (simp add: the_request_def select_root_def API_ROOT_def)
qed

text \<open>
  C8. Whenever the call returns a value, it slept exactly once, for
  \<open>max SLEEP_MIN sleep_time\<close> seconds, as its last action before returning; that is never
  less than the floor of 0.2 seconds.
\<close>

theorem sleep_before_return:
  assumes "fst (make_request ev s path method params public_api kwargs) = Inr v"
  shows "slept (snd (snd (make_request ev s path method params public_api kwargs))) =
           [max SLEEP_MIN (sleep_time s)]
       \<and> last (snd (snd (make_request ev s path method params public_api kwargs))) =
           Slept (max SLEEP_MIN (sleep_time s))
       \<and> 2 / 10 \<le> max SLEEP_MIN (sleep_time s)"
proof (cases "send ev (the_request s path method params public_api kwargs)")
  case (Responded r)
  from make_request_Responded [OF this] assms show ?thesis
    by (simp add: SLEEP_MIN_def split: if_splits)
next
  case (TimedOut e)
  with assms show ?thesis
    by (simp add: make_request_def Let_def split: prod.splits)
next
  case (Failed x)
  with assms show ?thesis
    by (simp add: make_request_def Let_def split: prod.splits)
qed

theorem sleep_before_return_witness:
  "fst (make_request song_env (Sender_init (Some ''token'') 5 0) ''songs/1'' ''GET'' None False [])
     = Inr (PyDict [(''id'', PyInt 1)])
   \<and> slept (snd (snd (make_request song_env (Sender_init (Some ''token'') 5 0)
        ''songs/1'' ''GET'' None False []))) = [2 / 10]"
proof -
  have a: "fst (make_request song_env (Sender_init (Some ''token'') 5 0) ''songs/1'' ''GET'' None False [])
     = Inr (PyDict [(''id'', PyInt 1)])"
    by (simp add: song_env_def fixed_env_def ok_response_def Sender_init_def request_defs Let_def)
  show ?thesis
    using a sleep_before_return [OF a]
    by (simp add: Sender_init_def SLEEP_MIN_def Let_def)
qed

subsection \<open>The token guard\<close>



text \<open>
  C6 fails as stated. The method takes \<^verbatim>\<open>**kwargs\<close> and has a local variable named
  \<^verbatim>\<open>public_api\<close>: its parameters do not include \<^verbatim>\<open>public_api\<close>, its
  \<^verbatim>\<open>co_varnames\<close> do. Called without a token and with \<^verbatim>\<open>public_api=True\<close> it is run,
  and its request goes out.
\<close>

theorem check_token_private_counterexample:
  "access_token anonymous_sender = None
   \<and> ''public_api'' \<notin> set (arg_names (kwargs_func song_env))
   \<and> fst (check_token (kwargs_func song_env) anonymous_sender [] [(''public_api'', PyBool True)])
       = Inr (PyDict [(''id'', PyInt 1)])
   \<and> map req_uri (sent (snd (snd (check_token (kwargs_func song_env) anonymous_sender []
         [(''public_api'', PyBool True)])))) = [''https://genius.com/api/songs/1'']"
  by (simp add: song_env_def fixed_env_def ok_response_def anonymous_sender_def Sender_init_def
      kwargs_func_def request_defs check_token_def co_varnames_def kwargs_get_def
      the_request_def PUBLIC_API_ROOT_def Let_def)

text \<open>
  C6, amended. For a wrapped function whose \<^verbatim>\<open>co_varnames\<close>, the names of its parameters
  and of its local variables, do not include \<^verbatim>\<open>public_api\<close>, every call on a sender
  without a token raises TokenRequiredError (without a message); the function is not run,
  the sender is unchanged and no request is sent.
\<close>

theorem check_token_private:
  assumes "access_token s = None" and "''public_api'' \<notin> set (co_varnames f)"
  shows "check_token f s args kwargs = (Inl (TokenRequiredError None), s, [])"
  using assms by (simp add: check_token_def)

theorem check_token_private_witness:
  "access_token anonymous_sender = None
   \<and> ''public_api'' \<notin> set (co_varnames (plain_func song_env))
   \<and> check_token (plain_func song_env) anonymous_sender [] [(''public_api'', PyBool True)]
       = (Inl (TokenRequiredError None), anonymous_sender, [])"
proof -
  have a: "access_token anonymous_sender = None"
    by (simp add: anonymous_sender_def Sender_init_def)
  have b: "''public_api'' \<notin> set (co_varnames (plain_func song_env))"
    by (simp add: plain_func_def co_varnames_def)
  show ?thesis
    using a b check_token_private [OF a b, of "[]" "[(''public_api'', PyBool True)]"]
    by simp
qed

end
